theory Spec2Isabelle
  imports Main
begin

section \<open>Data model\<close>

text \<open>
  The enumerations come from the package \<open>ees_types\<close> and from \<open>models/ScheduledJob\<close>.
  \<open>EXPERIMENT_STATE\<close> lists the four members the service names; every other member
  of the enumeration is an \<open>OTHER_STATE\<close> carrying its name.
\<close>

datatype EXPERIMENT_STATE =
  SCHEDULED | ENROLLING | ENROLLMENT_COMPLETE | CANCELLED | OTHER_STATE string

datatype SCHEDULE_TYPE = START_EXPERIMENT | END_EXPERIMENT

datatype SERVER_ERROR = QUERY_FAILED | DB_UNREACHABLE | DB_AUTH_FAIL

text \<open>
  Timestamps are values of a type parameter \<open>'ts\<close>, and the model compares them as the
  source does, with \<open>===\<close> and \<open>!==\<close>: equality on \<open>'ts\<close> is the strict comparison.
  The source types its timestamps as \<open>Date\<close>, and the strict comparison tells two
  objects apart by identity, not by the time they hold. The type \<open>Date\<close> below therefore
  gives an object its reference besides its time value: two \<open>Date\<close>s holding the same
  time at different references are different values. Every value of \<open>'ts\<close> is truthy
  (as a \<open>Date\<close> is); an absent date (\<open>undefined\<close> or \<open>null\<close>) is \<open>None\<close>.
  The records hold the fields the service reads or writes; any further column lives in
  the record's extension.
\<close>

datatype Date = Date (date_ref: nat) (getTime: int)

record 'ts Experiment =
  exp_id :: string
  exp_state :: EXPERIMENT_STATE
  startOn :: "'ts option"
  endOn :: "'ts option"

record 'ts ScheduledJob =
  job_id :: string
  experimentId :: "string option"
  job_type :: SCHEDULE_TYPE
  timeStamp :: "'ts option"
  executionArn :: "string option"

text \<open>The object \<open>{ id: startDoc.id }\<close> handed to the scheduler as \<open>body\<close>.\<close>

record job_body =
  body_id :: string

text \<open>
  The object given to \<open>JSON.stringify\<close> in \<open>startExperimentSchedular\<close>; the \<open>input\<close> of
  a step-function request is the JSON text of this object.
\<close>

record 'ts schedular_input =
  input_timeStamp :: "'ts option"
  input_body :: job_body
  input_url :: string

record 'ts StartExecutionInput =
  stateMachineArn :: string
  input :: "'ts schedular_input"

record StartExecutionOutput =
  out_executionArn :: string

subsection \<open>Thrown values\<close>

text \<open>
  A thrown value is an \<open>Error\<close> object with a message and an optional \<open>code\<close>, or the
  \<open>TypeError\<close> of the runtime. \<open>Typed t m\<close> is the message
  \<open>JSON.stringify({ type: t, message: m })\<close>, \<open>ServerErrorText t\<close> the text of the
  enumeration member itself.
\<close>

datatype error_message =
  Plain string | ServerErrorText SERVER_ERROR | Typed SERVER_ERROR string

datatype exn = Error error_message "string option" | TypeError string

fun code :: "exn \<Rightarrow> string option" where
  "code (Error m c) = c"
| "code (TypeError m) = None"

text \<open>What \<open>startExperiment\<close> and \<open>endExperiment\<close> resolve to: \<open>{}\<close> or the value of
  \<open>updateState\<close>.\<close>

datatype 'res reply = EmptyObject | FromUpdateState 'res

subsection \<open>The world outside the service\<close>

text \<open>Every call that leaves the service is recorded, in order.\<close>

datatype ('ts, 'usr) call =
    SJ_findOne string
  | SJ_find string
  | SJ_upsertScheduledJob "'ts ScheduledJob"
  | SJ_delete string
  | Exp_findOne "string option"
  | User_findOne string
  | Svc_updateState "string option" EXPERIMENT_STATE "'usr option"
  | AWS_stepFunctionStartExecution "'ts StartExecutionInput"
  | AWS_stepFunctionStopExecution "string option"
  | Log_error string exn

record ('ts, 'usr) world =
  scheduledJob_table :: "'ts ScheduledJob list"
  calls :: "('ts, 'usr) call list"

definition clock :: "('ts, 'usr) world \<Rightarrow> nat" where
  "clock w = length (calls w)"

definition record_call :: "('ts, 'usr) call \<Rightarrow> ('ts, 'usr) world \<Rightarrow> ('ts, 'usr) world" where
  "record_call x w = w\<lparr>calls := calls w @ [x]\<rparr>"

text \<open>The calls made on the way from the world \<open>w\<close> to the world \<open>w'\<close>.\<close>

definition new_calls :: "('ts, 'usr) world \<Rightarrow> ('ts, 'usr) world \<Rightarrow> ('ts, 'usr) call list" where
  "new_calls w w' = drop (length (calls w)) (calls w')"

text \<open>
  The collaborators injected into the service and the configuration it reads. What a
  collaborator answers is not decided by the service: each answer is given here as a
  function of the moment of the call (the number of calls made so far) and its
  arguments, and may be a thrown value. \<open>SCHEDULE_TYPE_text\<close> is the text a member of
  \<open>SCHEDULE_TYPE\<close> has in a template literal, \<open>systemUserDoc_id\<close> the id of the seeded
  system user.
\<close>

record ('ts, 'usr, 'res) collaborators =
  env_hostUrl :: string
  env_stepFunctionArn :: string
  SCHEDULE_TYPE_text :: "SCHEDULE_TYPE \<Rightarrow> string"
  systemUserDoc_id :: string
  scheduledJobRepository_fails :: "nat \<Rightarrow> exn option"
  experimentRepository_answer :: "nat \<Rightarrow> string option \<Rightarrow> exn + 'ts Experiment option"
  userRepository_answer :: "nat \<Rightarrow> string \<Rightarrow> exn + 'usr option"
  updateState_answer :: "nat \<Rightarrow> string option \<Rightarrow> EXPERIMENT_STATE \<Rightarrow> 'usr option \<Rightarrow> exn + 'res"
  startExecution_answer :: "nat \<Rightarrow> 'ts StartExecutionInput \<Rightarrow> string + StartExecutionOutput"
  stopExecution_answer :: "nat \<Rightarrow> string option \<Rightarrow> exn option"

section \<open>Asynchronous computations\<close>

text \<open>
  An \<open>async\<close> function is a function from the world to a settled promise (\<open>Inl\<close>
  rejected, \<open>Inr\<close> resolved) and the world it leaves.
\<close>

definition return :: "'a \<Rightarrow> 'w \<Rightarrow> ('e + 'a) \<times> 'w" where
  "return a w = (Inr a, w)"

definition throw :: "'e \<Rightarrow> 'w \<Rightarrow> ('e + 'a) \<times> 'w" where
  "throw e w = (Inl e, w)"

definition await ::
  "('w \<Rightarrow> ('e + 'a) \<times> 'w) \<Rightarrow> ('a \<Rightarrow> 'w \<Rightarrow> ('e + 'b) \<times> 'w) \<Rightarrow> 'w \<Rightarrow> ('e + 'b) \<times> 'w" where
  "await m f w = (case m w of (Inl e, w') \<Rightarrow> (Inl e, w') | (Inr a, w') \<Rightarrow> f a w')"

definition try_catch ::
  "('w \<Rightarrow> ('e + 'a) \<times> 'w) \<Rightarrow> ('e \<Rightarrow> 'w \<Rightarrow> ('f + 'a) \<times> 'w) \<Rightarrow> 'w \<Rightarrow> ('f + 'a) \<times> 'w" where
  "try_catch m h w = (case m w of (Inl e, w') \<Rightarrow> h e w' | (Inr a, w') \<Rightarrow> (Inr a, w'))"

section \<open>The collaborators' operations\<close>

text \<open>
  The scheduled-job table is the list of its rows. A failing repository call leaves
  the table as it is.
\<close>

definition scheduledJobRepository_findOne ::
  "('ts, 'usr, 'res) collaborators \<Rightarrow> string \<Rightarrow> ('ts, 'usr) world
    \<Rightarrow> (exn + 'ts ScheduledJob option) \<times> ('ts, 'usr) world" where
  "scheduledJobRepository_findOne c i w =
     (case scheduledJobRepository_fails c (clock w) of
        Some e \<Rightarrow> (Inl e, record_call (SJ_findOne i) w)
      | None \<Rightarrow> (Inr (find (\<lambda>j. job_id j = i) (scheduledJob_table w)), record_call (SJ_findOne i) w))"

definition scheduledJobRepository_find ::
  "('ts, 'usr, 'res) collaborators \<Rightarrow> string \<Rightarrow> ('ts, 'usr) world
    \<Rightarrow> (exn + 'ts ScheduledJob list) \<times> ('ts, 'usr) world" where
  "scheduledJobRepository_find c eid w =
     (case scheduledJobRepository_fails c (clock w) of
        Some e \<Rightarrow> (Inl e, record_call (SJ_find eid) w)
      | None \<Rightarrow> (Inr (filter (\<lambda>j. experimentId j = Some eid) (scheduledJob_table w)),
                 record_call (SJ_find eid) w))"

definition scheduledJobRepository_delete ::
  "('ts, 'usr, 'res) collaborators \<Rightarrow> string \<Rightarrow> ('ts, 'usr) world
    \<Rightarrow> (exn + unit) \<times> ('ts, 'usr) world" where
  "scheduledJobRepository_delete c i w =
     (case scheduledJobRepository_fails c (clock w) of
        Some e \<Rightarrow> (Inl e, record_call (SJ_delete i) w)
      | None \<Rightarrow> (Inr (), record_call (SJ_delete i)
                         (w\<lparr>scheduledJob_table := filter (\<lambda>j. job_id j \<noteq> i) (scheduledJob_table w)\<rparr>)))"

text \<open>
  Modelled from the spec: \<open>ScheduledJobRepository.upsertScheduledJob\<close> is not among the
  sources; the spec calls the operation an upsert of a row. A row with the same id is
  replaced, otherwise the row is added.
\<close>

definition upsert_row :: "'ts ScheduledJob \<Rightarrow> 'ts ScheduledJob list \<Rightarrow> 'ts ScheduledJob list" where
  "upsert_row d rows =
     (if job_id d \<in> set (map job_id rows)
      then map (\<lambda>j. if job_id j = job_id d then d else j) rows
      else rows @ [d])"

definition scheduledJobRepository_upsertScheduledJob ::
  "('ts, 'usr, 'res) collaborators \<Rightarrow> 'ts ScheduledJob \<Rightarrow> ('ts, 'usr) world
    \<Rightarrow> (exn + unit) \<times> ('ts, 'usr) world" where
  "scheduledJobRepository_upsertScheduledJob c d w =
     (case scheduledJobRepository_fails c (clock w) of
        Some e \<Rightarrow> (Inl e, record_call (SJ_upsertScheduledJob d) w)
      | None \<Rightarrow> (Inr (), record_call (SJ_upsertScheduledJob d)
                         (w\<lparr>scheduledJob_table := upsert_row d (scheduledJob_table w)\<rparr>)))"

definition experimentRepository_findOne ::
  "('ts, 'usr, 'res) collaborators \<Rightarrow> string option \<Rightarrow> ('ts, 'usr) world
    \<Rightarrow> (exn + 'ts Experiment option) \<times> ('ts, 'usr) world" where
  "experimentRepository_findOne c k w =
     (experimentRepository_answer c (clock w) k, record_call (Exp_findOne k) w)"

definition userRepository_findOne ::
  "('ts, 'usr, 'res) collaborators \<Rightarrow> string \<Rightarrow> ('ts, 'usr) world
    \<Rightarrow> (exn + 'usr option) \<times> ('ts, 'usr) world" where
  "userRepository_findOne c k w = (userRepository_answer c (clock w) k, record_call (User_findOne k) w)"

definition experimentService_updateState ::
  "('ts, 'usr, 'res) collaborators \<Rightarrow> string option \<Rightarrow> EXPERIMENT_STATE \<Rightarrow> 'usr option
    \<Rightarrow> ('ts, 'usr) world \<Rightarrow> (exn + 'res) \<times> ('ts, 'usr) world" where
  "experimentService_updateState c k s u w =
     (updateState_answer c (clock w) k s u, record_call (Svc_updateState k s u) w)"

definition awsService_stepFunctionStartExecution ::
  "('ts, 'usr, 'res) collaborators \<Rightarrow> 'ts StartExecutionInput \<Rightarrow> ('ts, 'usr) world
    \<Rightarrow> (string + StartExecutionOutput) \<times> ('ts, 'usr) world" where
  "awsService_stepFunctionStartExecution c p w =
     (startExecution_answer c (clock w) p, record_call (AWS_stepFunctionStartExecution p) w)"

definition awsService_stepFunctionStopExecution ::
  "('ts, 'usr, 'res) collaborators \<Rightarrow> string option \<Rightarrow> ('ts, 'usr) world
    \<Rightarrow> (exn + unit) \<times> ('ts, 'usr) world" where
  "awsService_stepFunctionStopExecution c a w =
     (case stopExecution_answer c (clock w) a of
        Some e \<Rightarrow> (Inl e, record_call (AWS_stepFunctionStopExecution a) w)
      | None \<Rightarrow> (Inr (), record_call (AWS_stepFunctionStopExecution a) w))"

definition log_error :: "string \<Rightarrow> exn \<Rightarrow> ('ts, 'usr) world \<Rightarrow> ('e + unit) \<times> ('ts, 'usr) world" where
  "log_error s e w = (Inr (), record_call (Log_error s e) w)"

text \<open>Truthiness of an optional string: present and not empty.\<close>

definition truthy :: "string option \<Rightarrow> bool" where
  "truthy s = (case s of None \<Rightarrow> False | Some t \<Rightarrow> t \<noteq> [])"

text \<open>The text \<open>${x}\<close> of an object \<open>x\<close> in a template literal.\<close>

definition String_of_object :: "'a \<Rightarrow> string" where
  "String_of_object x = ''[object Object]''"

section \<open>ScheduledJobService\<close>

text \<open>
  \<open>startExperiment\<close>: both guards of the source are kept; the second one tests
  \<open>scheduledJob\<close> again, which is known to be present there.
\<close>

definition startExperiment ::
  "('ts, 'usr, 'res) collaborators \<Rightarrow> string \<Rightarrow> ('ts, 'usr) world
    \<Rightarrow> (exn + 'res reply) \<times> ('ts, 'usr) world" where
  "startExperiment c i =
     await (scheduledJobRepository_findOne c i) (\<lambda>scheduledJob.
       case scheduledJob of
         None \<Rightarrow> return EmptyObject
       | Some sj \<Rightarrow>
           if truthy (experimentId sj) then
             await (experimentRepository_findOne c (experimentId sj)) (\<lambda>experiment.
               case experiment of
                 None \<Rightarrow> return EmptyObject
               | Some ex \<Rightarrow>
                   await (userRepository_findOne c (systemUserDoc_id c)) (\<lambda>systemUser.
                     await (experimentService_updateState c (experimentId sj) ENROLLING systemUser)
                       (\<lambda>r. return (FromUpdateState r))))
           else return EmptyObject)"

text \<open>
  \<open>endExperiment\<close> reads \<open>scheduledJob.experimentId\<close> before it tests \<open>scheduledJob\<close>:
  on \<open>undefined\<close> the property access throws a \<open>TypeError\<close>.
\<close>

definition endExperiment ::
  "('ts, 'usr, 'res) collaborators \<Rightarrow> string \<Rightarrow> ('ts, 'usr) world
    \<Rightarrow> (exn + 'res reply) \<times> ('ts, 'usr) world" where
  "endExperiment c i =
     await (scheduledJobRepository_findOne c i) (\<lambda>scheduledJob.
       await (case scheduledJob of
                None \<Rightarrow> throw (TypeError ''Cannot read property experimentId of undefined'')
              | Some sj \<Rightarrow> experimentRepository_findOne c (experimentId sj))
         (\<lambda>experiment.
            case (scheduledJob, experiment) of
              (Some sj, Some ex) \<Rightarrow>
                await (userRepository_findOne c (systemUserDoc_id c)) (\<lambda>systemUser.
                  await (experimentService_updateState c (experimentId sj) ENROLLMENT_COMPLETE
                           systemUser)
                    (\<lambda>r. return (FromUpdateState r)))
            | _ \<Rightarrow> return EmptyObject))"

text \<open>
  \<open>startExperimentSchedular\<close>: after the awaited call the source throws
  unconditionally (\<open>throw Error(... Logs of step function ...)\<close>); the
  \<open>return returnData\<close> that follows is never reached.
\<close>

definition startExperimentSchedular ::
  "('ts, 'usr, 'res) collaborators \<Rightarrow> 'ts option \<Rightarrow> job_body \<Rightarrow> SCHEDULE_TYPE
    \<Rightarrow> ('ts, 'usr) world \<Rightarrow> (exn + StartExecutionOutput) \<times> ('ts, 'usr) world" where
  "startExperimentSchedular c ts body ty =
     (let url = (if ty = START_EXPERIMENT
                 then env_hostUrl c @ ''/scheduledJobs/start''
                 else env_hostUrl c @ ''/scheduledJobs/end'');
          experimentSchedularStateMachine =
            \<lparr>stateMachineArn = env_stepFunctionArn c,
             input = \<lparr>input_timeStamp = ts, input_body = body, input_url = url\<rparr>\<rparr>
      in await
           (try_catch (awsService_stepFunctionStartExecution c experimentSchedularStateMachine)
              (\<lambda>reason. throw (Error (Typed QUERY_FAILED
                                 ('' Error in calling step function '' @ reason)) None)))
           (\<lambda>returnData. throw (Error (Typed QUERY_FAILED
                                 ('' Logs of step function '' @ String_of_object returnData)) None)))"

definition stopExperimentSchedular ::
  "('ts, 'usr, 'res) collaborators \<Rightarrow> string option \<Rightarrow> ('ts, 'usr) world
    \<Rightarrow> (exn + unit) \<times> ('ts, 'usr) world" where
  "stopExperimentSchedular c arn = awsService_stepFunctionStopExecution c arn"

text \<open>
  \<open>updateExperimentSchedules\<close>, in the three parts of its \<open>try\<close> block: the query, the
  start schedule (lines 68 to 104) and the end schedule (lines 106 to 141).
\<close>

definition updateExperimentSchedules_start ::
  "('ts, 'usr, 'res) collaborators \<Rightarrow> 'ts Experiment \<Rightarrow> 'ts ScheduledJob list
    \<Rightarrow> ('ts, 'usr) world \<Rightarrow> (exn + unit) \<times> ('ts, 'usr) world" where
  "updateExperimentSchedules_start c experiment scheduledJobs =
     (let experimentStartCondition = (exp_state experiment = SCHEDULED);
          startExperimentDoc = find (\<lambda>j. job_type j = START_EXPERIMENT) scheduledJobs
      in if experimentStartCondition then
           (if (case startExperimentDoc of
                  None \<Rightarrow> True
                | Some d \<Rightarrow> startOn experiment \<noteq> None \<and> timeStamp d \<noteq> startOn experiment)
            then
              (let startDoc =
                 (case startExperimentDoc of
                    Some d \<Rightarrow> d
                  | None \<Rightarrow>
                      \<lparr>job_id = exp_id experiment @ ''_'' @ SCHEDULE_TYPE_text c START_EXPERIMENT,
                       experimentId = Some (exp_id experiment),
                       job_type = START_EXPERIMENT,
                       timeStamp = startOn experiment,
                       executionArn = None\<rparr>)
               in await (startExperimentSchedular c (startOn experiment)
                           \<lparr>body_id = job_id startDoc\<rparr> START_EXPERIMENT) (\<lambda>response.
                  await (case startExperimentDoc of
                           None \<Rightarrow> return ()
                         | Some d \<Rightarrow>
                             if truthy (executionArn d)
                             then stopExperimentSchedular c (executionArn d)
                             else return ()) (\<lambda>_.
                  scheduledJobRepository_upsertScheduledJob c
                    (startDoc\<lparr>timeStamp := startOn experiment,
                              executionArn := Some (out_executionArn response)\<rparr>))))
            else return ())
         else
           (case startExperimentDoc of
              Some d \<Rightarrow>
                await (scheduledJobRepository_delete c (job_id d)) (\<lambda>_.
                await (stopExperimentSchedular c (executionArn d)) (\<lambda>_. return ()))
            | None \<Rightarrow> return ()))"

definition updateExperimentSchedules_end ::
  "('ts, 'usr, 'res) collaborators \<Rightarrow> 'ts Experiment \<Rightarrow> 'ts ScheduledJob list
    \<Rightarrow> ('ts, 'usr) world \<Rightarrow> (exn + unit) \<times> ('ts, 'usr) world" where
  "updateExperimentSchedules_end c experiment scheduledJobs =
     (let experimentEndCondition =
            (\<not> (exp_state experiment = ENROLLMENT_COMPLETE \<or> exp_state experiment = CANCELLED)
             \<and> endOn experiment \<noteq> None);
          endExperimentDoc = find (\<lambda>j. job_type j = END_EXPERIMENT) scheduledJobs
      in if experimentEndCondition then
           (if (case endExperimentDoc of
                  None \<Rightarrow> True
                | Some d \<Rightarrow> endOn experiment \<noteq> None \<and> timeStamp d \<noteq> endOn experiment)
            then
              (let endDoc =
                 (case endExperimentDoc of
                    Some d \<Rightarrow> d
                  | None \<Rightarrow>
                      \<lparr>job_id = exp_id experiment @ ''_'' @ SCHEDULE_TYPE_text c END_EXPERIMENT,
                       experimentId = Some (exp_id experiment),
                       job_type = END_EXPERIMENT,
                       timeStamp = endOn experiment,
                       executionArn = None\<rparr>)
               in await (startExperimentSchedular c (endOn experiment)
                           \<lparr>body_id = job_id endDoc\<rparr> END_EXPERIMENT) (\<lambda>response.
                  await (case endExperimentDoc of
                           None \<Rightarrow> return ()
                         | Some d \<Rightarrow>
                             if truthy (executionArn d)
                             then stopExperimentSchedular c (executionArn d)
                             else return ()) (\<lambda>_.
                  scheduledJobRepository_upsertScheduledJob c
                    (endDoc\<lparr>timeStamp := endOn experiment,
                            executionArn := Some (out_executionArn response)\<rparr>))))
            else return ())
         else
           (case endExperimentDoc of
              Some d \<Rightarrow>
                await (scheduledJobRepository_delete c (job_id d)) (\<lambda>_.
                await (stopExperimentSchedular c (executionArn d)) (\<lambda>_. return ()))
            | None \<Rightarrow> return ()))"

definition updateExperimentSchedules_try ::
  "('ts, 'usr, 'res) collaborators \<Rightarrow> 'ts Experiment
    \<Rightarrow> ('ts, 'usr) world \<Rightarrow> (exn + unit) \<times> ('ts, 'usr) world" where
  "updateExperimentSchedules_try c experiment =
     await (scheduledJobRepository_find c (exp_id experiment)) (\<lambda>scheduledJobs.
     await (updateExperimentSchedules_start c experiment scheduledJobs) (\<lambda>_.
     updateExperimentSchedules_end c experiment scheduledJobs))"

text \<open>The \<open>catch\<close> clause logs \<open>error.message\<close> and the function returns.\<close>

definition updateExperimentSchedules ::
  "('ts, 'usr, 'res) collaborators \<Rightarrow> 'ts Experiment
    \<Rightarrow> ('ts, 'usr) world \<Rightarrow> (exn + unit) \<times> ('ts, 'usr) world" where
  "updateExperimentSchedules c experiment =
     try_catch (updateExperimentSchedules_try c experiment)
       (\<lambda>error. log_error ''Error in experiment schedular '' error)"

section \<open>typeormLoader\<close>

text \<open>
  Connection options are an object, a map from property names to values. The loader
  overwrites nine properties of the loaded options with values of the environment.
\<close>

record 'v typeorm_env =
  env_db_type :: 'v
  env_db_host :: 'v
  env_db_port :: 'v
  env_db_username :: 'v
  env_db_password :: 'v
  env_db_synchronize :: 'v
  env_db_logging :: 'v
  env_app_dirs_entities :: 'v
  env_app_dirs_migrations :: 'v

definition Object_assign :: "(string \<rightharpoonup> 'v) \<Rightarrow> (string \<rightharpoonup> 'v) \<Rightarrow> (string \<rightharpoonup> 'v)" where
  "Object_assign target source = target ++ source"

text \<open>The options \<open>createConnection\<close> is called with: the result of \<open>Object.assign\<close>.\<close>

definition connectionOptions_of :: "(string \<rightharpoonup> 'v) \<Rightarrow> 'v typeorm_env \<Rightarrow> (string \<rightharpoonup> 'v)" where
  "connectionOptions_of loaded env =
     Object_assign loaded
       [''type'' \<mapsto> env_db_type env,
        ''host'' \<mapsto> env_db_host env,
        ''port'' \<mapsto> env_db_port env,
        ''username'' \<mapsto> env_db_username env,
        ''password'' \<mapsto> env_db_password env,
        ''synchronize'' \<mapsto> env_db_synchronize env,
        ''logging'' \<mapsto> env_db_logging env,
        ''entities'' \<mapsto> env_app_dirs_entities env,
        ''migrations'' \<mapsto> env_app_dirs_migrations env]"

text \<open>
  The settings object of the microframework: \<open>setData\<close> stores a value under a key,
  \<open>onShutdown\<close> adds a handler. The one handler the loader registers is the closure
  \<open>() => connection.close()\<close>, written \<open>Close_connection connection\<close>.
\<close>

datatype 'conn shutdown_handler = Close_connection 'conn

record 'conn MicroframeworkSettings =
  data :: "string \<rightharpoonup> 'conn"
  shutdownHandlers :: "'conn shutdown_handler list"

definition setData ::
  "string \<Rightarrow> 'conn \<Rightarrow> 'conn MicroframeworkSettings \<Rightarrow> 'conn MicroframeworkSettings" where
  "setData k v s = s\<lparr>data := (data s)(k \<mapsto> v)\<rparr>"

definition onShutdown ::
  "'conn shutdown_handler \<Rightarrow> 'conn MicroframeworkSettings \<Rightarrow> 'conn MicroframeworkSettings" where
  "onShutdown h s = s\<lparr>shutdownHandlers := shutdownHandlers s @ [h]\<rparr>"

text \<open>What the ORM answers, and the state the loader works on: the settings object it
  was given (if any) and the console.\<close>

record ('v, 'conn) typeorm =
  getConnectionOptions_answer :: "exn + (string \<rightharpoonup> 'v)"
  createConnection_answer :: "(string \<rightharpoonup> 'v) \<Rightarrow> exn + 'conn"

record 'conn loader_state =
  settings :: "'conn MicroframeworkSettings option"
  console :: "exn list"

definition console_log :: "exn \<Rightarrow> 'conn loader_state \<Rightarrow> ('e + unit) \<times> 'conn loader_state" where
  "console_log e s = (Inr (), s\<lparr>console := console s @ [e]\<rparr>)"

definition typeormLoader ::
  "('v, 'conn) typeorm \<Rightarrow> 'v typeorm_env \<Rightarrow> 'conn loader_state
    \<Rightarrow> (exn + unit) \<times> 'conn loader_state" where
  "typeormLoader orm env =
     await (\<lambda>s. (getConnectionOptions_answer orm, s)) (\<lambda>loadedConnectionOptions.
       let connectionOptions = connectionOptions_of loadedConnectionOptions env
       in try_catch
            (await (\<lambda>s. (createConnection_answer orm connectionOptions, s)) (\<lambda>connection s.
               case settings s of
                 Some st \<Rightarrow>
                   (Inr (), s\<lparr>settings :=
                              Some (onShutdown (Close_connection connection)
                                      (setData ''connection'' connection st))\<rparr>)
               | None \<Rightarrow> (Inr (), s)))
            (\<lambda>error.
               await (console_log error) (\<lambda>_.
                 if code error = Some ''ECONNREFUSED''
                 then throw (Error (ServerErrorText DB_UNREACHABLE) None)
                 else throw (Error (ServerErrorText DB_AUTH_FAIL) None))))"

section \<open>Sample inputs\<close>

text \<open>
  Concrete collaborators, experiments and tables on which the theorems below are
  instantiated. Timestamps are numbers here, except in the samples with \<open>Date\<close> objects
  further down. The sample collaborators never fail: the
  step-function service answers every start request with the handle \<open>arn:exec:new\<close>.
\<close>

definition schedule_type_text :: "SCHEDULE_TYPE \<Rightarrow> string" where
  "schedule_type_text t =
     (case t of START_EXPERIMENT \<Rightarrow> ''START_EXPERIMENT'' | END_EXPERIMENT \<Rightarrow> ''END_EXPERIMENT'')"

definition sample_experiment :: "nat Experiment" where
  "sample_experiment =
     \<lparr>exp_id = ''e1'', exp_state = SCHEDULED, startOn = Some 20, endOn = Some 30\<rparr>"

text \<open>The same experiment once it is enrolling, with its start moved, and with no end date.\<close>

definition enrolling_experiment :: "nat Experiment" where
  "enrolling_experiment = sample_experiment\<lparr>exp_state := ENROLLING\<rparr>"

definition rescheduled_experiment :: "nat Experiment" where
  "rescheduled_experiment = sample_experiment\<lparr>startOn := Some 25\<rparr>"

definition open_ended_experiment :: "nat Experiment" where
  "open_ended_experiment = sample_experiment\<lparr>endOn := None\<rparr>"

definition sample_collaborators :: "(nat, string, string) collaborators" where
  "sample_collaborators =
     \<lparr>env_hostUrl = ''http://host'',
      env_stepFunctionArn = ''arn:machine'',
      SCHEDULE_TYPE_text = schedule_type_text,
      systemUserDoc_id = ''system'',
      scheduledJobRepository_fails = (\<lambda>n. None),
      experimentRepository_answer =
        (\<lambda>n k. Inr (if k = Some ''e1'' then Some sample_experiment else None)),
      userRepository_answer = (\<lambda>n k. Inr (if k = ''system'' then Some ''system user'' else None)),
      updateState_answer = (\<lambda>n k s u. Inr ''updated''),
      startExecution_answer = (\<lambda>n p. Inr \<lparr>out_executionArn = ''arn:exec:new''\<rparr>),
      stopExecution_answer = (\<lambda>n a. None)\<rparr>"

definition start_job :: "nat ScheduledJob" where
  "start_job =
     \<lparr>job_id = ''e1_START_EXPERIMENT'', experimentId = Some ''e1'',
      job_type = START_EXPERIMENT, timeStamp = Some 20, executionArn = Some ''arn:exec:1''\<rparr>"

definition end_job :: "nat ScheduledJob" where
  "end_job =
     \<lparr>job_id = ''e1_END_EXPERIMENT'', experimentId = Some ''e1'',
      job_type = END_EXPERIMENT, timeStamp = Some 30, executionArn = Some ''arn:exec:2''\<rparr>"

definition empty_world :: "(nat, string) world" where
  "empty_world = \<lparr>scheduledJob_table = [], calls = []\<rparr>"

definition sample_world :: "(nat, string) world" where
  "sample_world = \<lparr>scheduledJob_table = [start_job, end_job], calls = []\<rparr>"

definition end_only_world :: "(nat, string) world" where
  "end_only_world = \<lparr>scheduledJob_table = [end_job], calls = []\<rparr>"

text \<open>
  The same experiment and jobs with \<open>Date\<close> objects for timestamps. The experiment as it
  reaches the service and the rows as the repository loads them hold objects of their
  own: the start job holds the time 20 as \<open>startOn\<close> does, and the end job the time 30
  as \<open>endOn\<close> does, each in another object.
\<close>

definition dated_experiment :: "Date Experiment" where
  "dated_experiment =
     \<lparr>exp_id = ''e1'', exp_state = SCHEDULED,
      startOn = Some (Date 1 20), endOn = Some (Date 2 30)\<rparr>"

definition dated_enrolling_experiment :: "Date Experiment" where
  "dated_enrolling_experiment = dated_experiment\<lparr>exp_state := ENROLLING\<rparr>"

definition dated_start_job :: "Date ScheduledJob" where
  "dated_start_job =
     \<lparr>job_id = ''e1_START_EXPERIMENT'', experimentId = Some ''e1'',
      job_type = START_EXPERIMENT, timeStamp = Some (Date 3 20),
      executionArn = Some ''arn:exec:1''\<rparr>"

definition dated_end_job :: "Date ScheduledJob" where
  "dated_end_job =
     \<lparr>job_id = ''e1_END_EXPERIMENT'', experimentId = Some ''e1'',
      job_type = END_EXPERIMENT, timeStamp = Some (Date 4 30),
      executionArn = Some ''arn:exec:2''\<rparr>"

definition dated_world :: "(Date, string) world" where
  "dated_world = \<lparr>scheduledJob_table = [dated_start_job, dated_end_job], calls = []\<rparr>"

definition dated_end_only_world :: "(Date, string) world" where
  "dated_end_only_world = \<lparr>scheduledJob_table = [dated_end_job], calls = []\<rparr>"

definition dated_collaborators :: "(Date, string, string) collaborators" where
  "dated_collaborators =
     \<lparr>env_hostUrl = ''http://host'',
      env_stepFunctionArn = ''arn:machine'',
      SCHEDULE_TYPE_text = schedule_type_text,
      systemUserDoc_id = ''system'',
      scheduledJobRepository_fails = (\<lambda>n. None),
      experimentRepository_answer =
        (\<lambda>n k. Inr (if k = Some ''e1'' then Some dated_experiment else None)),
      userRepository_answer = (\<lambda>n k. Inr (if k = ''system'' then Some ''system user'' else None)),
      updateState_answer = (\<lambda>n k s u. Inr ''updated''),
      startExecution_answer = (\<lambda>n p. Inr \<lparr>out_executionArn = ''arn:exec:new''\<rparr>),
      stopExecution_answer = (\<lambda>n a. None)\<rparr>"

text \<open>A repository whose every call is rejected, and a step-function service that
  rejects every request.\<close>

definition connection_lost :: exn where
  "connection_lost = Error (Plain ''connection lost'') None"

definition broken_repository :: "(nat, string, string) collaborators" where
  "broken_repository =
     sample_collaborators\<lparr>scheduledJobRepository_fails := (\<lambda>n. Some connection_lost)\<rparr>"

definition broken_step_functions :: "(nat, string, string) collaborators" where
  "broken_step_functions =
     sample_collaborators\<lparr>startExecution_answer := (\<lambda>n p. Inl ''Error: throttled'')\<rparr>"

text \<open>An ORM that refuses the connection, one that rejects the password, one that
  connects; and a settings object with nothing in it.\<close>

definition refusing_orm :: "(string, string) typeorm" where
  "refusing_orm =
     \<lparr>getConnectionOptions_answer = Inr Map.empty,
      createConnection_answer = (\<lambda>opts. Inl (Error (Plain ''connect'') (Some ''ECONNREFUSED'')))\<rparr>"

definition rejecting_orm :: "(string, string) typeorm" where
  "rejecting_orm =
     \<lparr>getConnectionOptions_answer = Inr Map.empty,
      createConnection_answer = (\<lambda>opts. Inl (Error (Plain ''password'') (Some ''28P01'')))\<rparr>"

definition connecting_orm :: "(string, string) typeorm" where
  "connecting_orm =
     \<lparr>getConnectionOptions_answer = Inr Map.empty,
      createConnection_answer = (\<lambda>opts. Inr ''connection 1'')\<rparr>"

definition sample_env :: "string typeorm_env" where
  "sample_env =
     \<lparr>env_db_type = ''postgres'', env_db_host = ''localhost'', env_db_port = ''5432'',
      env_db_username = ''user'', env_db_password = ''secret'', env_db_synchronize = ''false'',
      env_db_logging = ''error'', env_app_dirs_entities = ''entities'',
      env_app_dirs_migrations = ''migrations''\<rparr>"

definition fresh_settings :: "string MicroframeworkSettings" where
  "fresh_settings = \<lparr>data = Map.empty, shutdownHandlers = []\<rparr>"

definition loader_start :: "string loader_state" where
  "loader_start = \<lparr>settings = Some fresh_settings, console = []\<rparr>"

section \<open>Auxiliary facts\<close>

lemmas prims = return_def throw_def await_def try_catch_def record_call_def clock_def
  scheduledJobRepository_findOne_def scheduledJobRepository_find_def
  scheduledJobRepository_delete_def scheduledJobRepository_upsertScheduledJob_def
  experimentRepository_findOne_def userRepository_findOne_def
  experimentService_updateState_def awsService_stepFunctionStartExecution_def
  awsService_stepFunctionStopExecution_def log_error_def stopExperimentSchedular_def

lemmas samples = sample_collaborators_def sample_experiment_def schedule_type_text_def
  start_job_def end_job_def empty_world_def sample_world_def end_only_world_def
  connection_lost_def broken_repository_def broken_step_functions_def
  enrolling_experiment_def rescheduled_experiment_def open_ended_experiment_def

lemmas dated_samples = dated_experiment_def dated_enrolling_experiment_def dated_start_job_def
  dated_end_job_def dated_world_def dated_end_only_world_def dated_collaborators_def
  schedule_type_text_def

lemmas schedules = updateExperimentSchedules_def updateExperimentSchedules_try_def
  updateExperimentSchedules_start_def updateExperimentSchedules_end_def
  startExperimentSchedular_def String_of_object_def truthy_def Let_def

text \<open>
  \<open>startExperimentSchedular\<close> in closed form: whatever the step-function service
  answers, the call is made and the function throws.
\<close>

lemma startExperimentSchedular_run:
  "startExperimentSchedular c ts body ty w =
     (Inl (Error (Typed QUERY_FAILED
        (case startExecution_answer c (clock w) \<lparr>stateMachineArn = env_stepFunctionArn c,
             input = \<lparr>input_timeStamp = ts, input_body = body,
               input_url = env_hostUrl c @ (if ty = START_EXPERIMENT then ''/scheduledJobs/start'' else ''/scheduledJobs/end'')\<rparr>\<rparr> of
           Inl reason \<Rightarrow> '' Error in calling step function '' @ reason
         | Inr returnData \<Rightarrow> '' Logs of step function [object Object]'')) None),
      record_call (AWS_stepFunctionStartExecution
     \<lparr>stateMachineArn = env_stepFunctionArn c,
      input = \<lparr>input_timeStamp = ts, input_body = body,
               input_url = env_hostUrl c @ (if ty = START_EXPERIMENT then ''/scheduledJobs/start'' else ''/scheduledJobs/end'')\<rparr>\<rparr>) w)"
  by (simp add: startExperimentSchedular_def prims Let_def String_of_object_def split: sum.splits prod.splits)

lemma delete_then_stop:
  "await (scheduledJobRepository_delete c i) (\<lambda>_.
     await (stopExperimentSchedular c arn) return) w =
   (case scheduledJobRepository_fails c (clock w) of
      Some err \<Rightarrow> (Inl err, record_call (SJ_delete i) w)
    | None \<Rightarrow>
       (case stopExecution_answer c (Suc (clock w)) arn of Some err \<Rightarrow> Inl err | None \<Rightarrow> Inr (),
        w\<lparr>scheduledJob_table := filter (\<lambda>j. job_id j \<noteq> i) (scheduledJob_table w),
          calls := calls w @ [SJ_delete i, AWS_stepFunctionStopExecution arn]\<rparr>))"
  by (simp add: prims split: option.splits)

lemma start_block_run:
  "updateExperimentSchedules_start c e jobs w =
     (case find (\<lambda>j. job_type j = START_EXPERIMENT) jobs of
        None \<Rightarrow>
          if exp_state e = SCHEDULED
          then await (startExperimentSchedular c (startOn e)
                 \<lparr>body_id = exp_id e @ ''_'' @ SCHEDULE_TYPE_text c START_EXPERIMENT\<rparr>
                 START_EXPERIMENT) (\<lambda>_. return ()) w
          else (Inr (), w)
      | Some d \<Rightarrow>
          if exp_state e = SCHEDULED
          then (if startOn e \<noteq> None \<and> timeStamp d \<noteq> startOn e
                then await (startExperimentSchedular c (startOn e) \<lparr>body_id = job_id d\<rparr>
                       START_EXPERIMENT) (\<lambda>_. return ()) w
                else (Inr (), w))
          else await (scheduledJobRepository_delete c (job_id d))
                 (\<lambda>_. await (stopExperimentSchedular c (executionArn d)) return) w)"
  by (simp add: updateExperimentSchedules_start_def startExperimentSchedular_run
        await_def return_def Let_def split: option.splits)

lemma end_block_run:
  "updateExperimentSchedules_end c e jobs w =
     (case find (\<lambda>j. job_type j = END_EXPERIMENT) jobs of
        None \<Rightarrow>
          if exp_state e \<noteq> ENROLLMENT_COMPLETE \<and> exp_state e \<noteq> CANCELLED \<and> endOn e \<noteq> None
          then await (startExperimentSchedular c (endOn e)
                 \<lparr>body_id = exp_id e @ ''_'' @ SCHEDULE_TYPE_text c END_EXPERIMENT\<rparr>
                 END_EXPERIMENT) (\<lambda>_. return ()) w
          else (Inr (), w)
      | Some d \<Rightarrow>
          if exp_state e \<noteq> ENROLLMENT_COMPLETE \<and> exp_state e \<noteq> CANCELLED \<and> endOn e \<noteq> None
          then (if timeStamp d \<noteq> endOn e
                then await (startExperimentSchedular c (endOn e) \<lparr>body_id = job_id d\<rparr>
                       END_EXPERIMENT) (\<lambda>_. return ()) w
                else (Inr (), w))
          else await (scheduledJobRepository_delete c (job_id d))
                 (\<lambda>_. await (stopExperimentSchedular c (executionArn d)) return) w)"
  by (simp add: updateExperimentSchedules_end_def startExperimentSchedular_run
        await_def return_def Let_def split: option.splits)

lemma end_block_effect:
  assumes "updateExperimentSchedules_end c e jobs w = (r, w')"
  shows "calls w' = calls w @ new_calls w w'"
    and "AWS_stepFunctionStartExecution p \<in> set (new_calls w w')
           \<Longrightarrow> input_url (input p) = env_hostUrl c @ ''/scheduledJobs/end''"
    and "SJ_upsertScheduledJob row \<notin> set (new_calls w w')"
    and "SJ_delete i \<in> set (new_calls w w')
           \<Longrightarrow> \<exists>d. find (\<lambda>j. job_type j = END_EXPERIMENT) jobs = Some d \<and> job_id d = i"
    and "set (scheduledJob_table w') \<subseteq> set (scheduledJob_table w)"
    and "x \<in> set (scheduledJob_table w) \<Longrightarrow>
         (\<And>d. find (\<lambda>j. job_type j = END_EXPERIMENT) jobs = Some d \<Longrightarrow> job_id d \<noteq> job_id x)
           \<Longrightarrow> x \<in> set (scheduledJob_table w')"
  using assms
  by (auto simp add: end_block_run startExperimentSchedular_run prims new_calls_def
        split: option.splits if_splits)

lemma start_block_effect:
  assumes "updateExperimentSchedules_start c e jobs w = (r, w')"
  shows "calls w' = calls w @ new_calls w w'"
    and "AWS_stepFunctionStartExecution p \<in> set (new_calls w w')
           \<Longrightarrow> input_url (input p) = env_hostUrl c @ ''/scheduledJobs/start''"
    and "SJ_upsertScheduledJob row \<notin> set (new_calls w w')"
    and "SJ_delete i \<in> set (new_calls w w')
           \<Longrightarrow> \<exists>d. find (\<lambda>j. job_type j = START_EXPERIMENT) jobs = Some d \<and> job_id d = i"
    and "set (scheduledJob_table w') \<subseteq> set (scheduledJob_table w)"
    and "x \<in> set (scheduledJob_table w) \<Longrightarrow>
         (\<And>d. find (\<lambda>j. job_type j = START_EXPERIMENT) jobs = Some d \<Longrightarrow> job_id d \<noteq> job_id x)
           \<Longrightarrow> x \<in> set (scheduledJob_table w')"
  using assms
  by (auto simp add: start_block_run startExperimentSchedular_run prims new_calls_def
        split: option.splits if_splits)

lemma new_calls_append: "calls w' = calls w @ xs \<Longrightarrow> new_calls w w' = xs"
  by (simp add: new_calls_def)

lemma find_run:
  "scheduledJobRepository_find c i w =
     (case scheduledJobRepository_fails c (clock w) of
        Some err \<Rightarrow> Inl err
      | None \<Rightarrow> Inr (filter (\<lambda>j. experimentId j = Some i) (scheduledJob_table w)),
      record_call (SJ_find i) w)"
  by (simp add: scheduledJobRepository_find_def split: option.splits)

lemma whole_run:
  assumes "scheduledJobRepository_find c (exp_id e) w = (r1, w1)"
    and "updateExperimentSchedules_start c e jobs w1 = (r2, w2)"
    and "updateExperimentSchedules_end c e jobs w2 = (r3, w3)"
    and "r1 = Inl err \<or> r1 = Inr jobs"
  shows "snd (updateExperimentSchedules c e w) =
     (case r1 of
        Inl err \<Rightarrow> record_call (Log_error ''Error in experiment schedular '' err) w1
      | Inr _ \<Rightarrow>
         (case r2 of
            Inl err \<Rightarrow> record_call (Log_error ''Error in experiment schedular '' err) w2
          | Inr _ \<Rightarrow>
             (case r3 of
                Inl err \<Rightarrow> record_call (Log_error ''Error in experiment schedular '' err) w3
              | Inr _ \<Rightarrow> w3)))"
  using assms
  by (auto simp add: updateExperimentSchedules_def updateExperimentSchedules_try_def
        await_def try_catch_def log_error_def split: sum.splits)

lemma schedules_anatomy:
  assumes jobs: "jobs = filter (\<lambda>j. experimentId j = Some (exp_id e)) (scheduledJob_table w)"
    and w1: "w1 = record_call (SJ_find (exp_id e)) w"
    and start2: "updateExperimentSchedules_start c e jobs w1 = (r2, w2)"
    and end3: "updateExperimentSchedules_end c e jobs w2 = (r3, w3)"
  shows "\<exists>ys tail base.
           new_calls w (snd (updateExperimentSchedules c e w)) = SJ_find (exp_id e) # ys @ tail
         \<and> (\<forall>x\<in>set tail. \<exists>s err. x = Log_error s err)
         \<and> scheduledJob_table (snd (updateExperimentSchedules c e w)) = scheduledJob_table base
         \<and> ((ys = [] \<and> base = w1 \<and> scheduledJobRepository_fails c (clock w) \<noteq> None)
            \<or> (ys = new_calls w1 w2 \<and> base = w2)
            \<or> (ys = new_calls w1 w2 @ new_calls w2 w3 \<and> base = w3))"
proof -
  let ?whole = "snd (updateExperimentSchedules c e w)"
  let ?log = "\<lambda>err. Log_error ''Error in experiment schedular '' err"
  have w1_calls: "calls w1 = calls w @ [SJ_find (exp_id e)]"
    by (simp add: w1 record_call_def)
  have w2_calls: "calls w2 = calls w @ SJ_find (exp_id e) # new_calls w1 w2"
    using start_block_effect(1) [OF start2] w1_calls by simp
  have w3_calls: "calls w3 = calls w @ SJ_find (exp_id e) # new_calls w1 w2 @ new_calls w2 w3"
    using end_block_effect(1) [OF end3] w2_calls by simp
  show ?thesis
  proof (cases "scheduledJobRepository_fails c (clock w)")
    case (Some err)
    then have find1: "scheduledJobRepository_find c (exp_id e) w = (Inl err, w1)"
      by (simp add: find_run w1)
    from whole_run [OF find1 start2 end3, of err]
    have whole: "?whole = record_call (?log err) w1" by simp
    have "new_calls w ?whole = SJ_find (exp_id e) # [] @ [?log err]"
      by (rule new_calls_append) (simp add: whole record_call_def w1_calls)
    moreover have "scheduledJob_table ?whole = scheduledJob_table w1"
      by (simp add: whole record_call_def)
    ultimately show ?thesis using Some
      by (intro exI [of _ "[]"] exI [of _ "[?log err]"] exI [of _ w1]) simp
  next
    case None
    then have find1: "scheduledJobRepository_find c (exp_id e) w = (Inr jobs, w1)"
      by (simp add: find_run w1 jobs)
    have whole: "?whole =
        (case r2 of Inl err \<Rightarrow> record_call (?log err) w2
         | Inr _ \<Rightarrow> (case r3 of Inl err \<Rightarrow> record_call (?log err) w3 | Inr _ \<Rightarrow> w3))"
      using whole_run [OF find1 start2 end3, of undefined] by simp
    show ?thesis
    proof (cases r2)
      case (Inl err)
      then have eq: "?whole = record_call (?log err) w2" using whole by simp
      have "new_calls w ?whole = SJ_find (exp_id e) # new_calls w1 w2 @ [?log err]"
        by (rule new_calls_append) (simp add: eq record_call_def w2_calls)
      moreover have "scheduledJob_table ?whole = scheduledJob_table w2"
        by (simp add: eq record_call_def)
      ultimately show ?thesis
        by (intro exI [of _ "new_calls w1 w2"] exI [of _ "[?log err]"] exI [of _ w2]) simp
    next
      case (Inr u)
      show ?thesis
      proof (cases r3)
        case (Inl err)
        then have eq: "?whole = record_call (?log err) w3" using whole Inr by simp
        have "new_calls w ?whole =
                SJ_find (exp_id e) # (new_calls w1 w2 @ new_calls w2 w3) @ [?log err]"
          by (rule new_calls_append) (simp add: eq record_call_def w3_calls)
        moreover have "scheduledJob_table ?whole = scheduledJob_table w3"
          by (simp add: eq record_call_def)
        ultimately show ?thesis
          by (intro exI [of _ "new_calls w1 w2 @ new_calls w2 w3"] exI [of _ "[?log err]"]
                exI [of _ w3]) simp
      next
        case (Inr u')
        then have eq: "?whole = w3" using whole \<open>r2 = Inr u\<close> by simp
        have "new_calls w ?whole = SJ_find (exp_id e) # (new_calls w1 w2 @ new_calls w2 w3) @ []"
          by (rule new_calls_append) (simp add: eq w3_calls)
        then show ?thesis using eq
          by (intro exI [of _ "new_calls w1 w2 @ new_calls w2 w3"] exI [of _ "[]"]
                exI [of _ w3]) simp
      qed
    qed
  qed
qed


text \<open>
  With no row for the id, \<open>startExperiment\<close> resolves to \<open>{}\<close> after the one lookup,
  and \<open>endExperiment\<close> is rejected with the \<open>TypeError\<close> of the property access.
\<close>

lemma startExperiment_missing_job:
  assumes "scheduledJobRepository_fails c (clock w) = None"
    and "find (\<lambda>j. job_id j = i) (scheduledJob_table w) = None"
  shows "startExperiment c i w = (Inr EmptyObject, w\<lparr>calls := calls w @ [SJ_findOne i]\<rparr>)"
  using assms by (simp add: startExperiment_def prims)

lemma endExperiment_missing_job:
  assumes "scheduledJobRepository_fails c (clock w) = None"
    and "find (\<lambda>j. job_id j = i) (scheduledJob_table w) = None"
  shows "endExperiment c i w =
           (Inl (TypeError ''Cannot read property experimentId of undefined''),
            w\<lparr>calls := calls w @ [SJ_findOne i]\<rparr>)"
  using assms by (simp add: endExperiment_def prims)

text \<open>
  When the end condition fails, an end job exists and the delete is answered, the end
  part of \<open>updateExperimentSchedules\<close>, where it is reached, deletes the end job and asks
  for its execution to be stopped.
\<close>

lemma end_block_removes_end_job:
  assumes "exp_state e = ENROLLMENT_COMPLETE \<or> exp_state e = CANCELLED \<or> endOn e = None"
    and "find (\<lambda>j. job_type j = END_EXPERIMENT) jobs = Some d"
    and "scheduledJobRepository_fails c (clock v) = None"
  shows "snd (updateExperimentSchedules_end c e jobs v) =
           v\<lparr>scheduledJob_table := filter (\<lambda>j. job_id j \<noteq> job_id d) (scheduledJob_table v),
             calls := calls v @ [SJ_delete (job_id d),
                                 AWS_stepFunctionStopExecution (executionArn d)]\<rparr>"
  using assms by (auto simp add: end_block_run delete_then_stop)

section \<open>The claims\<close>

text \<open>
  C1. The claim: for a \<open>SCHEDULED\<close> experiment with a start date and no start job (or
  one with another timestamp), \<open>updateExperimentSchedules\<close> calls the step-function
  start API and then upserts the start job with \<open>timeStamp = startOn\<close> and the
  returned \<open>executionArn\<close>. On the code the API is called, but
  \<open>startExperimentSchedular\<close> then throws in every run, so the upsert is never
  reached: for the sample experiment (\<open>SCHEDULED\<close>, start date 20) and an empty table,
  with a step-function service that answers the handle \<open>arn:exec:new\<close>, the run makes
  the start request, logs the error and leaves the table empty.
\<close>

theorem updateExperimentSchedules_start_job_not_stored:
  "updateExperimentSchedules sample_collaborators sample_experiment empty_world =
     (Inr (),
      \<lparr>scheduledJob_table = [],
       calls =
         [SJ_find ''e1'',
          AWS_stepFunctionStartExecution
            \<lparr>stateMachineArn = ''arn:machine'',
             input = \<lparr>input_timeStamp = Some 20,
                      input_body = \<lparr>body_id = ''e1_START_EXPERIMENT''\<rparr>,
                      input_url = ''http://host/scheduledJobs/start''\<rparr>\<rparr>,
          Log_error ''Error in experiment schedular ''
            (Error (Typed QUERY_FAILED '' Logs of step function [object Object]'') None)]\<rparr>)"
  by (simp add: schedules prims samples)

text \<open>
  C2. Given the id of a scheduled job whose \<open>experimentId\<close> is not empty and whose
  experiment exists (the three lookups answer), \<open>startExperiment\<close> changes nothing
  itself: it makes the three lookups and calls \<open>updateState\<close> with the job's
  \<open>experimentId\<close>, the state \<open>ENROLLING\<close> and the user the system-user lookup gave, and
  settles as \<open>updateState\<close> does. \<open>endExperiment\<close> does the same with the state
  \<open>ENROLLMENT_COMPLETE\<close>.
\<close>

theorem startExperiment_endExperiment_delegate:
  assumes "scheduledJobRepository_fails c (clock w) = None"
    and "find (\<lambda>j. job_id j = i) (scheduledJob_table w) = Some sj"
    and "experimentId sj = Some eid" and "eid \<noteq> []"
    and "experimentRepository_answer c (clock w + 1) (Some eid) = Inr (Some ex)"
    and "userRepository_answer c (clock w + 2) (systemUserDoc_id c) = Inr systemUser"
  shows "startExperiment c i w =
           (map_sum id FromUpdateState
              (updateState_answer c (clock w + 3) (Some eid) ENROLLING systemUser),
            w\<lparr>calls := calls w @
                 [SJ_findOne i, Exp_findOne (Some eid), User_findOne (systemUserDoc_id c),
                  Svc_updateState (Some eid) ENROLLING systemUser]\<rparr>)
       \<and> endExperiment c i w =
           (map_sum id FromUpdateState
              (updateState_answer c (clock w + 3) (Some eid) ENROLLMENT_COMPLETE systemUser),
            w\<lparr>calls := calls w @
                 [SJ_findOne i, Exp_findOne (Some eid), User_findOne (systemUserDoc_id c),
                  Svc_updateState (Some eid) ENROLLMENT_COMPLETE systemUser]\<rparr>)"
proof
  show "startExperiment c i w =
           (map_sum id FromUpdateState
              (updateState_answer c (clock w + 3) (Some eid) ENROLLING systemUser),
            w\<lparr>calls := calls w @
                 [SJ_findOne i, Exp_findOne (Some eid), User_findOne (systemUserDoc_id c),
                  Svc_updateState (Some eid) ENROLLING systemUser]\<rparr>)"
    using assms
    by (auto simp add: startExperiment_def prims truthy_def eval_nat_numeral
        split: sum.splits prod.splits)
  show "endExperiment c i w =
           (map_sum id FromUpdateState
              (updateState_answer c (clock w + 3) (Some eid) ENROLLMENT_COMPLETE systemUser),
            w\<lparr>calls := calls w @
                 [SJ_findOne i, Exp_findOne (Some eid), User_findOne (systemUserDoc_id c),
                  Svc_updateState (Some eid) ENROLLMENT_COMPLETE systemUser]\<rparr>)"
    using assms
    by (auto simp add: endExperiment_def prims truthy_def eval_nat_numeral
        split: sum.splits prod.splits)
qed

theorem startExperiment_endExperiment_delegate_witness:
  "scheduledJobRepository_fails sample_collaborators (clock sample_world) = None
   \<and> find (\<lambda>j. job_id j = ''e1_START_EXPERIMENT'') (scheduledJob_table sample_world)
       = Some start_job
   \<and> experimentId start_job = Some ''e1''
   \<and> startExperiment sample_collaborators ''e1_START_EXPERIMENT'' sample_world =
     (Inr (FromUpdateState ''updated''),
      sample_world\<lparr>calls :=
        [SJ_findOne ''e1_START_EXPERIMENT'', Exp_findOne (Some ''e1''), User_findOne ''system'',
         Svc_updateState (Some ''e1'') ENROLLING (Some ''system user'')]\<rparr>)
   \<and> endExperiment sample_collaborators ''e1_START_EXPERIMENT'' sample_world =
     (Inr (FromUpdateState ''updated''),
      sample_world\<lparr>calls :=
        [SJ_findOne ''e1_START_EXPERIMENT'', Exp_findOne (Some ''e1''), User_findOne ''system'',
         Svc_updateState (Some ''e1'') ENROLLMENT_COMPLETE (Some ''system user'')]\<rparr>)"
  using startExperiment_endExperiment_delegate
    [of sample_collaborators sample_world "''e1_START_EXPERIMENT''" start_job "''e1''"
        sample_experiment "Some ''system user''"]
  by (simp add: samples clock_def)

text \<open>
  C3. The claim: when the experiment is \<open>SCHEDULED\<close> and its start job's timestamp
  equals \<open>startOn\<close>, \<open>updateExperimentSchedules\<close> makes no start request and leaves
  the start job as it is, and likewise for the end job when the end condition holds and
  its timestamp equals \<open>endOn\<close>. On the code the test is
  \<open>startExperimentDoc.timeStamp !== startOn\<close> on two \<open>Date\<close> objects, which holds
  whenever they are two objects, whatever times they hold. For the experiment with
  start 20 and end 30 and a table whose start job holds the time 20 and whose end job
  holds the time 30, in objects of their own, the run makes a start request for the
  start schedule; and once the experiment is enrolling, with only the end job in the
  table, the run makes a start request for the end schedule.
\<close>

theorem updateExperimentSchedules_reschedules_equal_dates:
  "map_option getTime (timeStamp dated_start_job) = map_option getTime (startOn dated_experiment)
   \<and> updateExperimentSchedules dated_collaborators dated_experiment dated_world =
     (Inr (),
      \<lparr>scheduledJob_table = [dated_start_job, dated_end_job],
       calls =
         [SJ_find ''e1'',
          AWS_stepFunctionStartExecution
            \<lparr>stateMachineArn = ''arn:machine'',
             input = \<lparr>input_timeStamp = Some (Date 1 20),
                      input_body = \<lparr>body_id = ''e1_START_EXPERIMENT''\<rparr>,
                      input_url = ''http://host/scheduledJobs/start''\<rparr>\<rparr>,
          Log_error ''Error in experiment schedular ''
            (Error (Typed QUERY_FAILED '' Logs of step function [object Object]'') None)]\<rparr>)
   \<and> map_option getTime (timeStamp dated_end_job)
       = map_option getTime (endOn dated_enrolling_experiment)
   \<and> updateExperimentSchedules dated_collaborators dated_enrolling_experiment
         dated_end_only_world =
     (Inr (),
      \<lparr>scheduledJob_table = [dated_end_job],
       calls =
         [SJ_find ''e1'',
          AWS_stepFunctionStartExecution
            \<lparr>stateMachineArn = ''arn:machine'',
             input = \<lparr>input_timeStamp = Some (Date 2 30),
                      input_body = \<lparr>body_id = ''e1_END_EXPERIMENT''\<rparr>,
                      input_url = ''http://host/scheduledJobs/end''\<rparr>\<rparr>,
          Log_error ''Error in experiment schedular ''
            (Error (Typed QUERY_FAILED '' Logs of step function [object Object]'') None)]\<rparr>)"
  by (simp add: schedules prims dated_samples)

text \<open>
  C4. When the experiment's state is not \<open>SCHEDULED\<close> and a start job exists (the query
  answers and finds it), \<open>updateExperimentSchedules\<close> queries the jobs and deletes the
  start job by its id; when the delete is answered it then asks the step-function
  service to stop the execution named by the job's \<open>executionArn\<close>, and afterwards the
  table holds no row with that id.
\<close>

theorem updateExperimentSchedules_removes_start_job:
  fixes c :: "('ts, 'usr, 'res) collaborators" and w :: "('ts, 'usr) world"
  assumes st: "exp_state e \<noteq> SCHEDULED"
    and ok0: "scheduledJobRepository_fails c (clock w) = None"
    and d: "find (\<lambda>j. job_type j = START_EXPERIMENT)
           (filter (\<lambda>j. experimentId j = Some (exp_id e)) (scheduledJob_table w)) = Some d"
  shows "take 2 (new_calls w (snd (updateExperimentSchedules c e w))) =
           [SJ_find (exp_id e), SJ_delete (job_id d)]
       \<and> (scheduledJobRepository_fails c (clock w + 1) = None \<longrightarrow>
            take 3 (new_calls w (snd (updateExperimentSchedules c e w))) =
              [SJ_find (exp_id e), SJ_delete (job_id d),
               AWS_stepFunctionStopExecution (executionArn d)]
          \<and> job_id d \<notin> job_id ` set (scheduledJob_table (snd (updateExperimentSchedules c e w))))"
proof -
  define jobs where "jobs = filter (\<lambda>j. experimentId j = Some (exp_id e)) (scheduledJob_table w)"
  define w1 where "w1 = record_call (SJ_find (exp_id e)) w"
  let ?whole = "snd (updateExperimentSchedules c e w)"
  let ?removed = "filter (\<lambda>j. job_id j \<noteq> job_id d) (scheduledJob_table w1)"
  have clock1: "clock w1 = clock w + 1"
    by (simp add: w1_def record_call_def clock_def)
  obtain r2 w2 where start2: "updateExperimentSchedules_start c e jobs w1 = (r2, w2)"
    by (cases "updateExperimentSchedules_start c e jobs w1")
  have run2: "(r2, w2) = await (scheduledJobRepository_delete c (job_id d))
                 (\<lambda>_. await (stopExperimentSchedular c (executionArn d)) return) w1"
    using st d start2 by (simp add: start_block_run jobs_def)
  have first: "\<exists>rest. new_calls w1 w2 = SJ_delete (job_id d) # rest"
    using run2 by (auto simp add: delete_then_stop new_calls_def record_call_def split: option.splits)
  have answered: "new_calls w1 w2 =
                    [SJ_delete (job_id d), AWS_stepFunctionStopExecution (executionArn d)]
                  \<and> scheduledJob_table w2 = ?removed"
    if "scheduledJobRepository_fails c (clock w + 1) = None"
    using run2 that clock1 by (simp add: delete_then_stop new_calls_def)
  obtain r3 w3 where end3: "updateExperimentSchedules_end c e jobs w2 = (r3, w3)"
    by (cases "updateExperimentSchedules_end c e jobs w2")
  note eff = end_block_effect [OF end3]
  from schedules_anatomy [OF jobs_def w1_def start2 end3] ok0
  obtain ys tail base where
    new: "new_calls w ?whole = SJ_find (exp_id e) # ys @ tail"
    and table: "scheduledJob_table ?whole = scheduledJob_table base"
    and base: "(ys = new_calls w1 w2 \<and> base = w2)
               \<or> (ys = new_calls w1 w2 @ new_calls w2 w3 \<and> base = w3)"
    by auto
  have "take 2 (new_calls w ?whole) = [SJ_find (exp_id e), SJ_delete (job_id d)]"
    using base new first by auto
  moreover have "take 3 (new_calls w ?whole) =
          [SJ_find (exp_id e), SJ_delete (job_id d), AWS_stepFunctionStopExecution (executionArn d)]
        \<and> job_id d \<notin> job_id ` set (scheduledJob_table ?whole)"
    if ok1: "scheduledJobRepository_fails c (clock w + 1) = None"
  proof
    show "take 3 (new_calls w ?whole) =
          [SJ_find (exp_id e), SJ_delete (job_id d), AWS_stepFunctionStopExecution (executionArn d)]"
      using base new answered [OF ok1] by auto
    have "set (scheduledJob_table base) \<subseteq> set (scheduledJob_table w2)"
      using base eff(5) by auto
    then show "job_id d \<notin> job_id ` set (scheduledJob_table ?whole)"
      using table answered [OF ok1] by auto
  qed
  ultimately show ?thesis by simp
qed

theorem updateExperimentSchedules_removes_start_job_witness:
  "exp_state enrolling_experiment \<noteq> SCHEDULED
   \<and> scheduledJobRepository_fails sample_collaborators (clock sample_world) = None
   \<and> find (\<lambda>j. job_type j = START_EXPERIMENT)
       (filter (\<lambda>j. experimentId j = Some (exp_id enrolling_experiment))
          (scheduledJob_table sample_world)) = Some start_job
   \<and> scheduledJobRepository_fails sample_collaborators (clock sample_world + 1) = None
   \<and> take 3 (new_calls sample_world
        (snd (updateExperimentSchedules sample_collaborators enrolling_experiment sample_world)))
       = [SJ_find ''e1'', SJ_delete ''e1_START_EXPERIMENT'',
          AWS_stepFunctionStopExecution (Some ''arn:exec:1'')]
   \<and> scheduledJob_table
        (snd (updateExperimentSchedules sample_collaborators enrolling_experiment sample_world))
       = [end_job]"
  using updateExperimentSchedules_removes_start_job
          [of enrolling_experiment sample_collaborators sample_world start_job]
  by (simp add: schedules prims samples new_calls_def)

text \<open>
  C5. The claim: an end schedule is kept exactly when the state is neither
  \<open>ENROLLMENT_COMPLETE\<close> nor \<open>CANCELLED\<close> and \<open>endOn\<close> is set, and when that condition
  fails and an end job exists, the end job is deleted and its execution stopped. On the
  code the end part is not reached when the start part throws: for the sample
  experiment without an end date (\<open>SCHEDULED\<close>, start date 20) and a table holding only
  its end job, the run makes the start request, logs the error and leaves the end job
  in the table, with neither a delete nor a stop request.
\<close>

theorem updateExperimentSchedules_end_job_not_deleted:
  "updateExperimentSchedules sample_collaborators open_ended_experiment end_only_world =
     (Inr (),
      \<lparr>scheduledJob_table = [end_job],
       calls =
         [SJ_find ''e1'',
          AWS_stepFunctionStartExecution
            \<lparr>stateMachineArn = ''arn:machine'',
             input = \<lparr>input_timeStamp = Some 20,
                      input_body = \<lparr>body_id = ''e1_START_EXPERIMENT''\<rparr>,
                      input_url = ''http://host/scheduledJobs/start''\<rparr>\<rparr>,
          Log_error ''Error in experiment schedular ''
            (Error (Typed QUERY_FAILED '' Logs of step function [object Object]'') None)]\<rparr>)"
  by (simp add: schedules prims samples)

text \<open>
  C6. \<open>startExperimentSchedular\<close> makes exactly one call, the start request: its state
  machine is the configured \<open>stepFunctionArn\<close>, and its input holds the timestamp, the
  body and the callback url, which is \<open>hostUrl + '/scheduledJobs/start'\<close> for
  \<open>START_EXPERIMENT\<close> and \<open>hostUrl + '/scheduledJobs/end'\<close> otherwise.
\<close>

theorem startExperimentSchedular_request:
  "snd (startExperimentSchedular c ts body ty w) =
     record_call (AWS_stepFunctionStartExecution
       \<lparr>stateMachineArn = env_stepFunctionArn c,
        input = \<lparr>input_timeStamp = ts, input_body = body,
                 input_url = (if ty = START_EXPERIMENT
                              then env_hostUrl c @ ''/scheduledJobs/start''
                              else env_hostUrl c @ ''/scheduledJobs/end'')\<rparr>\<rparr>) w"
  by (simp add: startExperimentSchedular_def prims Let_def split: sum.splits prod.splits)

theorem startExperimentSchedular_request_witness:
  "calls (snd (startExperimentSchedular sample_collaborators (Some 20)
                 \<lparr>body_id = ''e1_START_EXPERIMENT''\<rparr> START_EXPERIMENT empty_world)) =
     [AWS_stepFunctionStartExecution
        \<lparr>stateMachineArn = ''arn:machine'',
         input = \<lparr>input_timeStamp = Some 20, input_body = \<lparr>body_id = ''e1_START_EXPERIMENT''\<rparr>,
                  input_url = ''http://host/scheduledJobs/start''\<rparr>\<rparr>]
   \<and> calls (snd (startExperimentSchedular sample_collaborators (Some 30)
                 \<lparr>body_id = ''e1_END_EXPERIMENT''\<rparr> END_EXPERIMENT empty_world)) =
     [AWS_stepFunctionStartExecution
        \<lparr>stateMachineArn = ''arn:machine'',
         input = \<lparr>input_timeStamp = Some 30, input_body = \<lparr>body_id = ''e1_END_EXPERIMENT''\<rparr>,
                  input_url = ''http://host/scheduledJobs/end''\<rparr>\<rparr>]"
  using startExperimentSchedular_request
          [of sample_collaborators "Some 20" "\<lparr>body_id = ''e1_START_EXPERIMENT''\<rparr>"
              START_EXPERIMENT empty_world]
        startExperimentSchedular_request
          [of sample_collaborators "Some 30" "\<lparr>body_id = ''e1_END_EXPERIMENT''\<rparr>"
              END_EXPERIMENT empty_world]
  by (simp add: samples record_call_def)



text \<open>
  C8. The claim: when the scheduled-job lookup returns no row, \<open>startExperiment\<close>
  returns \<open>{}\<close> without any further call, and \<open>endExperiment\<close> returns \<open>{}\<close> too. On
  the code the first half holds; \<open>endExperiment\<close> reads \<open>scheduledJob.experimentId\<close>
  before testing \<open>scheduledJob\<close> and is rejected with a \<open>TypeError\<close>: here for the id
  \<open>unknown\<close>, which no row of the sample table has.
\<close>

theorem endExperiment_rejects_unknown_id:
  "startExperiment sample_collaborators ''unknown'' sample_world =
     (Inr EmptyObject, sample_world\<lparr>calls := [SJ_findOne ''unknown'']\<rparr>)
   \<and> endExperiment sample_collaborators ''unknown'' sample_world =
     (Inl (TypeError ''Cannot read property experimentId of undefined''),
      sample_world\<lparr>calls := [SJ_findOne ''unknown'']\<rparr>)"
  by (simp add: startExperiment_def endExperiment_def prims samples)

text \<open>
  C9. \<open>updateExperimentSchedules\<close> resolves in every run, whatever the repository and
  the step-function service answer. Whenever its \<open>try\<close> block throws, the error is
  logged and nothing else happens; in particular a failing query ends the run with
  the query and the log entry as its only calls.
\<close>

theorem updateExperimentSchedules_returns_normally:
  "fst (updateExperimentSchedules c experiment w) = Inr ()
   \<and> (\<forall>err w'. updateExperimentSchedules_try c experiment w = (Inl err, w') \<longrightarrow>
         updateExperimentSchedules c experiment w =
           (Inr (), record_call (Log_error ''Error in experiment schedular '' err) w'))
   \<and> (\<forall>err. scheduledJobRepository_fails c (clock w) = Some err \<longrightarrow>
         updateExperimentSchedules c experiment w =
           (Inr (), w\<lparr>calls := calls w @
               [SJ_find (exp_id experiment), Log_error ''Error in experiment schedular '' err]\<rparr>))"
  by (simp add: updateExperimentSchedules_def updateExperimentSchedules_try_def prims
      split: sum.splits prod.splits)

theorem updateExperimentSchedules_returns_normally_witness:
  "scheduledJobRepository_fails broken_repository (clock sample_world) = Some connection_lost
   \<and> updateExperimentSchedules broken_repository sample_experiment sample_world =
     (Inr (), sample_world\<lparr>calls :=
        [SJ_find ''e1'', Log_error ''Error in experiment schedular '' connection_lost]\<rparr>)
   \<and> fst (updateExperimentSchedules broken_step_functions sample_experiment empty_world)
       = Inr ()"
  using updateExperimentSchedules_returns_normally
          [of broken_repository sample_experiment sample_world]
        updateExperimentSchedules_returns_normally
          [of broken_step_functions sample_experiment empty_world]
  by (simp add: samples clock_def)

text \<open>
  C10. Once the connection options are loaded: a failure of \<open>createConnection\<close> makes
  \<open>typeormLoader\<close> throw \<open>DB_UNREACHABLE\<close> if the error's code is \<open>ECONNREFUSED\<close> and
  \<open>DB_AUTH_FAIL\<close> otherwise (and \<open>DB_UNREACHABLE\<close> only in the first case), leaving the
  settings as they were; on success the loader resolves, and settings that were given
  hold the connection under the key \<open>connection\<close> and one more shutdown handler, which
  closes that connection.
\<close>

theorem typeormLoader_classifies:
  assumes "getConnectionOptions_answer orm = Inr loaded"
  shows "(\<forall>err. createConnection_answer orm (connectionOptions_of loaded env) = Inl err \<longrightarrow>
            fst (typeormLoader orm env s) =
              Inl (Error (ServerErrorText
                     (if code err = Some ''ECONNREFUSED'' then DB_UNREACHABLE else DB_AUTH_FAIL))
                     None)
            \<and> (fst (typeormLoader orm env s) = Inl (Error (ServerErrorText DB_UNREACHABLE) None)
                 \<longleftrightarrow> code err = Some ''ECONNREFUSED'')
            \<and> settings (snd (typeormLoader orm env s)) = settings s)
       \<and> (\<forall>connection.
            createConnection_answer orm (connectionOptions_of loaded env) = Inr connection \<longrightarrow>
            fst (typeormLoader orm env s) = Inr ()
            \<and> settings (snd (typeormLoader orm env s)) =
                (case settings s of
                   None \<Rightarrow> None
                 | Some st \<Rightarrow>
                     Some (st\<lparr>data := (data st)(''connection'' \<mapsto> connection),
                              shutdownHandlers :=
                                shutdownHandlers st @ [Close_connection connection]\<rparr>)))"
  using assms
  by (simp add: typeormLoader_def prims console_log_def setData_def onShutdown_def Let_def
      split: sum.splits prod.splits option.splits)

theorem typeormLoader_classifies_witness:
  "getConnectionOptions_answer refusing_orm = Inr Map.empty
   \<and> fst (typeormLoader refusing_orm sample_env loader_start) =
     Inl (Error (ServerErrorText DB_UNREACHABLE) None)
   \<and> fst (typeormLoader rejecting_orm sample_env loader_start) =
     Inl (Error (ServerErrorText DB_AUTH_FAIL) None)
   \<and> fst (typeormLoader connecting_orm sample_env loader_start) = Inr ()
   \<and> settings (snd (typeormLoader connecting_orm sample_env loader_start)) =
       Some \<lparr>data = [''connection'' \<mapsto> ''connection 1''],
             shutdownHandlers = [Close_connection ''connection 1'']\<rparr>"
  using typeormLoader_classifies [of refusing_orm Map.empty sample_env loader_start]
        typeormLoader_classifies [of rejecting_orm Map.empty sample_env loader_start]
        typeormLoader_classifies [of connecting_orm Map.empty sample_env loader_start]
  by (simp add: refusing_orm_def rejecting_orm_def connecting_orm_def loader_start_def
      fresh_settings_def)

end
